theory Spec2Isabelle
  imports Complex_Main "HOL-Library.AList" "HOL-Library.Multiset"
begin

section \<open>Values, tables and exceptions\<close>

text \<open>
  A Python float is a finite real, an infinity or NaN. Finite floats are embedded in the
  reals, where the comparisons of the source (\<open>> 0\<close>, \<open>< p_threshold\<close>) agree with
  IEEE comparison; every comparison with NaN is false.
\<close>

datatype flt = Fin real | PInf | NInf | NaN

fun flt_less :: "flt \<Rightarrow> flt \<Rightarrow> bool" where
  "flt_less NaN _ = False"
| "flt_less _ NaN = False"
| "flt_less (Fin x) (Fin y) = (x < y)"
| "flt_less (Fin x) PInf = True"
| "flt_less (Fin x) NInf = False"
| "flt_less PInf _ = False"
| "flt_less NInf NInf = False"
| "flt_less NInf _ = True"

fun flt_neg :: "flt \<Rightarrow> flt" where
  "flt_neg (Fin x) = Fin (- x)"
| "flt_neg PInf = NInf"
| "flt_neg NInf = PInf"
| "flt_neg NaN = NaN"

text \<open>
  A cell of a pandas table: text, or a number (a blank cell is read as NaN). A gene
  list is what \<open>.tolist()\<close> gives: the cells of the gene column.
\<close>

datatype cell = Str string | Num flt

text \<open>
  The exceptions of the model are instances of Python's \<open>Exception\<close>, the class every
  \<open>except Exception\<close> of the source catches. \<open>str_exn\<close> is \<open>str(e)\<close>; a KeyError
  prints its key in quotes.
\<close>

datatype exn = KeyError string | TypeError string | Exception string

fun str_exn :: "exn \<Rightarrow> string" where
  "str_exn (KeyError k) = [CHR 0x27] @ k @ [CHR 0x27]"
| "str_exn (TypeError m) = m"
| "str_exn (Exception m) = m"

definition bindE :: "exn + 'a \<Rightarrow> ('a \<Rightarrow> exn + 'b) \<Rightarrow> exn + 'b" where
  "bindE m f = (case m of Inl e \<Rightarrow> Inl e | Inr x \<Rightarrow> f x)"

text \<open>
  A DataFrame: its column labels in order and its rows; a row gives the cell under each
  label (what it gives under a label that is not a column is never read: reading a
  column that is absent raises KeyError).
\<close>

type_synonym row = "string \<Rightarrow> cell"

record dataframe =
  columns :: "string list"
  rows :: "row list"

definition empty_df :: dataframe where
  "empty_df = \<lparr>columns = [], rows = []\<rparr>"

text \<open>\<open>df.empty\<close>: some axis has length 0.\<close>

definition df_empty :: "dataframe \<Rightarrow> bool" where
  "df_empty df = (columns df = [] \<or> rows df = [])"

text \<open>\<open>df[col]\<close>.\<close>

definition get_col :: "dataframe \<Rightarrow> string \<Rightarrow> exn + cell list" where
  "get_col df col =
     (if col \<in> set (columns df) then Inr (map (\<lambda>r. r col) (rows df))
      else Inl (KeyError col))"

text \<open>\<open>df[col] = values\<close>, with one value per row.\<close>

definition set_col :: "dataframe \<Rightarrow> string \<Rightarrow> cell list \<Rightarrow> dataframe" where
  "set_col df col vals =
     \<lparr>columns = (if col \<in> set (columns df) then columns df else columns df @ [col]),
      rows = map (\<lambda>(r, v). r(col := v)) (zip (rows df) vals)\<rparr>"

text \<open>\<open>df[col] = scalar\<close>.\<close>

definition set_col_const :: "dataframe \<Rightarrow> string \<Rightarrow> cell \<Rightarrow> dataframe" where
  "set_col_const df col v =
     \<lparr>columns = (if col \<in> set (columns df) then columns df else columns df @ [col]),
      rows = map (\<lambda>r. r(col := v)) (rows df)\<rparr>"

text \<open>\<open>df[cond]\<close> for a boolean series \<open>msk\<close> over the rows.\<close>

definition df_mask :: "dataframe \<Rightarrow> bool list \<Rightarrow> dataframe" where
  "df_mask df msk = df\<lparr>rows := map fst (filter snd (zip (rows df) msk))\<rparr>"

text \<open>
  \<open>series > 0\<close> and \<open>series < threshold\<close>, element by element. Ordering a text cell
  against a number raises TypeError; a NaN cell compares false.
\<close>

fun cell_gt_zero :: "cell \<Rightarrow> exn + bool" where
  "cell_gt_zero (Num x) = Inr (flt_less (Fin 0) x)"
| "cell_gt_zero (Str s) =
     Inl (TypeError ([CHR 0x27] @ ''>'' @ [CHR 0x27] @ '' not supported between instances of '' @
            [CHR 0x27] @ ''str'' @ [CHR 0x27] @ '' and '' @ [CHR 0x27] @ ''int'' @ [CHR 0x27]))"

fun cell_lt :: "flt \<Rightarrow> cell \<Rightarrow> exn + bool" where
  "cell_lt t (Num x) = Inr (flt_less x t)"
| "cell_lt t (Str s) =
     Inl (TypeError ([CHR 0x27] @ ''<'' @ [CHR 0x27] @ '' not supported between instances of '' @
            [CHR 0x27] @ ''str'' @ [CHR 0x27] @ '' and '' @ [CHR 0x27] @ ''float'' @
            [CHR 0x27]))"

fun mapE :: "('a \<Rightarrow> exn + 'b) \<Rightarrow> 'a list \<Rightarrow> exn + 'b list" where
  "mapE f [] = Inr []"
| "mapE f (x # xs) =
     (case f x of Inl e \<Rightarrow> Inl e
      | Inr y \<Rightarrow> (case mapE f xs of Inl e \<Rightarrow> Inl e | Inr ys \<Rightarrow> Inr (y # ys)))"

text \<open>\<open>np.where(cond, a, b)\<close>.\<close>

definition np_where :: "bool list \<Rightarrow> cell \<Rightarrow> cell \<Rightarrow> cell list" where
  "np_where msk a b = map (\<lambda>m. if m then a else b) msk"

text \<open>\<open>df[df[col] == s]\<close>: equality with a string never raises.\<close>

definition select_eq :: "dataframe \<Rightarrow> string \<Rightarrow> string \<Rightarrow> exn + dataframe" where
  "select_eq df col s =
     bindE (get_col df col) (\<lambda>series. Inr (df_mask df (map (\<lambda>c. c = Str s) series)))"

section \<open>Strings\<close>

fun str_nat :: "nat \<Rightarrow> string" where
  "str_nat n =
     (if n < 10 then [''0123456789'' ! n]
      else str_nat (n div 10) @ [''0123456789'' ! (n mod 10)])"

declare str_nat.simps [simp del]

text \<open>\<open>str.lower\<close>, \<open>str.upper\<close> and \<open>str.title\<close> on ASCII text.\<close>

definition is_upper :: "char \<Rightarrow> bool" where
  "is_upper c = (65 \<le> (of_char c :: nat) \<and> (of_char c :: nat) \<le> 90)"

definition is_lower :: "char \<Rightarrow> bool" where
  "is_lower c = (97 \<le> (of_char c :: nat) \<and> (of_char c :: nat) \<le> 122)"

definition lower_char :: "char \<Rightarrow> char" where
  "lower_char c = (if is_upper c then char_of ((of_char c :: nat) + 32) else c)"

definition upper_char :: "char \<Rightarrow> char" where
  "upper_char c = (if is_lower c then char_of ((of_char c :: nat) - 32) else c)"

definition lower :: "string \<Rightarrow> string" where
  "lower s = map lower_char s"

definition upper :: "string \<Rightarrow> string" where
  "upper s = map upper_char s"

fun title_from :: "bool \<Rightarrow> string \<Rightarrow> string" where
  "title_from prev [] = []"
| "title_from prev (c # cs) =
     (if is_upper c \<or> is_lower c
      then (if prev then lower_char c else upper_char c) # title_from True cs
      else c # title_from False cs)"

definition title :: "string \<Rightarrow> string" where
  "title s = title_from False s"

text \<open>\<open>s.replace(a, b)\<close> for single characters.\<close>

definition replace_char :: "char \<Rightarrow> char \<Rightarrow> string \<Rightarrow> string" where
  "replace_char a b s = map (\<lambda>c. if c = a then b else c) s"

text \<open>\<open>s.split(sep)[0]\<close>.\<close>

definition split_first :: "char \<Rightarrow> string \<Rightarrow> string" where
  "split_first sep s = takeWhile (\<lambda>c. c \<noteq> sep) s"

text \<open>\<open>Path(a) / b\<close> for a relative \<open>b\<close>.\<close>

definition path_join :: "string \<Rightarrow> string \<Rightarrow> string" where
  "path_join a b = (if b = [] then a else a @ ''/'' @ b)"

section \<open>The outside world\<close>

text \<open>
  The result object of the enrichment provider (gseapy's \<open>Enrichr\<close>): its \<open>results\<close>
  attribute is the table of terms.
\<close>

record enrichr_obj =
  results :: dataframe

datatype level = INFO | WARNING | ERROR

text \<open>
  What a run does to the outside, in order: log records, calls of the file system, of
  the provider and of the plotting library. \<open>Invoked\<close> records each entry into
  \<open>run_enrichment\<close> with its arguments.
\<close>

datatype event =
    Log level string
  | Mkdir string
  | ReadExcel string
  | Invoked "cell list" "string list" string
  | Enrichr "cell list" "string list" string
  | ToExcel dataframe string
  | Figure nat
  | BarPlot dataframe string string
  | CloseFig
  | Glob string string
  | RGlob string string

type_synonym trace = "event list"

text \<open>
  The collaborators the pipeline calls. Each answer may depend on everything that has
  happened so far (the trace), so a file or the network may answer differently each
  time. \<open>np_log10\<close> is numpy's rounded base-10 logarithm of one float.
\<close>

record env =
  mkdir :: "trace \<Rightarrow> string \<Rightarrow> exn option"
  read_excel :: "trace \<Rightarrow> string \<Rightarrow> exn + dataframe"
  enrichr :: "trace \<Rightarrow> cell list \<Rightarrow> string list \<Rightarrow> string \<Rightarrow> exn + enrichr_obj"
  to_excel :: "trace \<Rightarrow> dataframe \<Rightarrow> string \<Rightarrow> exn option"
  plt_figure :: "trace \<Rightarrow> nat \<Rightarrow> exn option"
  bar_plot :: "trace \<Rightarrow> dataframe \<Rightarrow> string \<Rightarrow> string \<Rightarrow> exn option"
  np_log10 :: "flt \<Rightarrow> flt"
  glob :: "trace \<Rightarrow> string \<Rightarrow> string \<Rightarrow> string list"
  rglob :: "trace \<Rightarrow> string \<Rightarrow> string \<Rightarrow> string list"

section \<open>EnrichmentAnalyzer\<close>

record analyzer =
  organism :: string
  output_dir :: string
  libraries :: "(string \<times> string list) list"

text \<open>\<open>_get_libraries\<close>.\<close>

definition get_libraries :: "string \<Rightarrow> (string \<times> string list) list" where
  "get_libraries org =
     (if lower org = ''zebrafish'' then
        [(''go'', [''GO_Biological_Process_2018'', ''GO_Molecular_Function_2018'',
                   ''GO_Cellular_Component_2018'']),
         (''pathways'', [''WikiPathways_2018'', ''KEGG_2019''])]
      else if lower org = ''human'' then
        [(''go'', [''GO_Biological_Process_2021'', ''GO_Molecular_Function_2021'',
                   ''GO_Cellular_Component_2021'']),
         (''pathways'', [''WikiPathways_2019_Human'', ''KEGG_2021_Human''])]
      else
        [(''go'', [''GO_Biological_Process_2018'', ''GO_Molecular_Function_2018'',
                   ''GO_Cellular_Component_2018'']),
         (''pathways'', [''WikiPathways_2018'', ''KEGG_2019''])])"



subsection \<open>Dataset loader\<close>

text \<open>Line 112: the regulation column derived from \<open>log2FoldChange\<close>.\<close>

definition derive_regulation :: "dataframe \<Rightarrow> string \<Rightarrow> exn + dataframe" where
  "derive_regulation df regulation_col =
     bindE (get_col df ''log2FoldChange'') (\<lambda>fc.
     bindE (mapE cell_gt_zero fc) (\<lambda>msk.
     Inr (set_col df regulation_col
            (np_where msk (Str ''Upregulated'') (Str ''Downregulated'')))))"

text \<open>Lines 111 to 116, on the table that was read.\<close>

definition split_degs :: "dataframe \<Rightarrow> string \<Rightarrow> string \<Rightarrow> exn + cell list \<times> cell list" where
  "split_degs df0 gene_col regulation_col =
     bindE (if regulation_col \<notin> set (columns df0) then derive_regulation df0 regulation_col
            else Inr df0) (\<lambda>df.
     bindE (select_eq df regulation_col ''Upregulated'') (\<lambda>up_df.
     bindE (get_col up_df gene_col) (\<lambda>up_genes.
     bindE (select_eq df regulation_col ''Downregulated'') (\<lambda>down_df.
     bindE (get_col down_df gene_col) (\<lambda>down_genes.
     Inr (up_genes, down_genes))))))"

definition load_degs ::
  "env \<Rightarrow> trace \<Rightarrow> string \<Rightarrow> string \<Rightarrow> string \<Rightarrow> (exn + cell list \<times> cell list) \<times> trace" where
  "load_degs w tr file_path gene_col regulation_col =
     (case read_excel w tr file_path of
        Inl e \<Rightarrow>
          (Inl e, tr @ [ReadExcel file_path,
             Log ERROR (''Error loading DEGs from '' @ file_path @ '': '' @ str_exn e)])
      | Inr df \<Rightarrow>
          (let tr1 = tr @ [ReadExcel file_path,
                 Log INFO (''Loaded '' @ str_nat (length (rows df)) @ '' DEGs from '' @ file_path)]
           in case split_degs df gene_col regulation_col of
                Inl e \<Rightarrow>
                  (Inl e, tr1 @
                     [Log ERROR (''Error loading DEGs from '' @ file_path @ '': '' @ str_exn e)])
              | Inr (up_genes, down_genes) \<Rightarrow>
                  (Inr (up_genes, down_genes), tr1 @
                     [Log INFO (''Found '' @ str_nat (length up_genes) @ '' upregulated and '' @
                        str_nat (length down_genes) @ '' down regulated genes.'')])))"

subsection \<open>Enrichment invoker\<close>

definition run_enrichment ::
  "analyzer \<Rightarrow> env \<Rightarrow> trace \<Rightarrow> cell list \<Rightarrow> string list \<Rightarrow> string \<Rightarrow> enrichr_obj option \<times> trace" where
  "run_enrichment a w tr gene_list gene_set analysis_name =
     (let tr0 = tr @ [Invoked gene_list gene_set analysis_name] in
      if gene_list = [] then
        (None, tr0 @ [Log WARNING (''Empty gene list for '' @ analysis_name)])
      else
        (let tr1 = tr0 @ [Log INFO (''Running '' @ analysis_name @ '' with '' @
                      str_nat (length gene_list) @ '' genes.'')]
         in case enrichr w tr1 gene_list gene_set (organism a) of
              Inr enr_result \<Rightarrow> (Some enr_result, tr1 @ [Enrichr gene_list gene_set (organism a)])
            | Inl e \<Rightarrow>
                (None, tr1 @ [Enrichr gene_list gene_set (organism a),
                   Log ERROR (''Error running '' @ analysis_name @ '': '' @ str_exn e)])))"

subsection \<open>Significance filter\<close>

definition filter_significant :: "dataframe option \<Rightarrow> flt \<Rightarrow> exn + dataframe" where
  "filter_significant results_df p_threshold =
     (case results_df of
        None \<Rightarrow> Inr empty_df
      | Some df \<Rightarrow>
          if df_empty df then Inr empty_df
          else bindE (get_col df ''Adjusted P-value'') (\<lambda>padj.
               bindE (mapE (cell_lt p_threshold) padj) (\<lambda>msk.
               Inr (df_mask df msk))))"

text \<open>\<open>save_results\<close>: a failure to write is logged and goes no further.\<close>

definition save_results ::
  "analyzer \<Rightarrow> env \<Rightarrow> trace \<Rightarrow> enrichr_obj option \<Rightarrow> string \<Rightarrow> string \<Rightarrow> trace" where
  "save_results a w tr res filename subdir =
     (case res of
        None \<Rightarrow> tr @ [Log WARNING (''No results to save for '' @ filename)]
      | Some r \<Rightarrow>
          (let output_path = path_join (path_join (output_dir a) subdir) (filename @ ''.xlsx'')
           in case to_excel w tr (results r) output_path of
                None \<Rightarrow>
                  tr @ [ToExcel (results r) output_path,
                        Log INFO (''Results saved to '' @ output_path)]
              | Some e \<Rightarrow>
                  tr @ [ToExcel (results r) output_path,
                        Log ERROR (''Error saving results to '' @ output_path @ '': '' @
                          str_exn e)]))"

subsection \<open>Comparison visualizer\<close>

text \<open>\<open>df.head(n)\<close>: the first \<open>n\<close> rows, or all but the last \<open>-n\<close> for a negative \<open>n\<close>.\<close>

definition df_head :: "dataframe \<Rightarrow> int \<Rightarrow> dataframe" where
  "df_head df n =
     df\<lparr>rows := (if 0 \<le> n then take (nat n) (rows df)
                 else take (length (rows df) - nat (- n)) (rows df))\<rparr>"

text \<open>\<open>np.log10\<close> over a series: a text cell raises TypeError.\<close>

fun cell_log10 :: "env \<Rightarrow> cell \<Rightarrow> exn + flt" where
  "cell_log10 w (Num x) = Inr (np_log10 w x)"
| "cell_log10 w (Str s) =
     Inl (TypeError (''loop of ufunc does not support argument 0 of type str which has '' @
            ''no callable log10 method''))"

text \<open>Lines 195 to 200 and 202 to 207: the bars of each direction.\<close>

definition up_plot_data :: "env \<Rightarrow> dataframe \<Rightarrow> int \<Rightarrow> exn + dataframe" where
  "up_plot_data w up_results top_n =
     (if \<not> df_empty up_results then
        (let d = set_col_const (df_head up_results top_n) ''direction'' (Str ''Upregulated'')
         in bindE (get_col d ''Adjusted P-value'') (\<lambda>p.
            bindE (mapE (cell_log10 w) p) (\<lambda>l.
            Inr (set_col d ''-log10(p-value)'' (map (\<lambda>x. Num (flt_neg x)) l)))))
      else Inr empty_df)"

definition down_plot_data :: "env \<Rightarrow> dataframe \<Rightarrow> int \<Rightarrow> exn + dataframe" where
  "down_plot_data w down_results top_n =
     (if \<not> df_empty down_results then
        (let d = set_col_const (df_head down_results top_n) ''direction'' (Str ''Downregulated'')
         in bindE (get_col d ''Adjusted P-value'') (\<lambda>p.
            bindE (mapE (cell_log10 w) p) (\<lambda>l.
            Inr (set_col d ''-log10(p-value)'' (map (\<lambda>x. Num x) l)))))
      else Inr empty_df)"

text \<open>\<open>pd.concat([a, b], ignore_index=True)\<close>: a cell under a label the table lacks is NaN.\<close>

definition concat_df :: "dataframe \<Rightarrow> dataframe \<Rightarrow> dataframe" where
  "concat_df a b =
     \<lparr>columns = columns a @ filter (\<lambda>c. c \<notin> set (columns a)) (columns b),
      rows = map (\<lambda>r c. if c \<in> set (columns a) then r c else Num NaN) (rows a) @
             map (\<lambda>r c. if c \<in> set (columns b) then r c else Num NaN) (rows b)\<rparr>"

definition create_comparison_plot ::
  "analyzer \<Rightarrow> env \<Rightarrow> trace \<Rightarrow> dataframe \<Rightarrow> dataframe \<Rightarrow> string \<Rightarrow> string \<Rightarrow> int \<Rightarrow>
   exn option \<times> trace" where
  "create_comparison_plot a w tr up_results down_results ttl filename top_n =
     (case up_plot_data w up_results top_n of
        Inl e \<Rightarrow> (Some e, tr)
      | Inr up \<Rightarrow>
         (case down_plot_data w down_results top_n of
            Inl e \<Rightarrow> (Some e, tr)
          | Inr down \<Rightarrow>
              if df_empty up \<and> df_empty down then
                (None, tr @ [Log WARNING (''No data to plot for '' @ ttl)])
              else
                (let combined_data = concat_df up down;
                     n = length (rows combined_data)
                 in case plt_figure w tr n of
                      Some e \<Rightarrow> (Some e, tr @ [Figure n])
                    | None \<Rightarrow>
                       (let tr1 = tr @ [Figure n] in
                        if \<not> df_empty combined_data then
                          (let plot_path =
                                 path_join (path_join (output_dir a) ''plots'') (filename @ ''.png'')
                           in case bar_plot w tr1 combined_data ttl plot_path of
                                Some e \<Rightarrow> (Some e, tr1 @ [BarPlot combined_data ttl plot_path])
                              | None \<Rightarrow>
                                  (None, tr1 @ [BarPlot combined_data ttl plot_path,
                                     Log INFO (''Plot saved to '' @ plot_path)]))
                        else (None, tr1 @ [CloseFig])))))"

subsection \<open>Sample analyzer\<close>

text \<open>
  The outcome of a sample is a Python dict from field names to text or counts, kept in
  insertion order.
\<close>

datatype val = VStr string | VInt nat

type_synonym outcome = "(string \<times> val) list"

text \<open>\<open>d.get(key, pd.DataFrame())\<close>.\<close>

definition get_or_empty :: "(string \<times> dataframe) list \<Rightarrow> string \<Rightarrow> dataframe" where
  "get_or_empty d k = (case map_of d k of None \<Rightarrow> empty_df | Some df \<Rightarrow> df)"

text \<open>
  One round of the loop of lines 277 to 292. A result object is truthy, so
  \<open>if up_enr:\<close> asks whether the invoker returned one.
\<close>

definition go_step ::
  "analyzer \<Rightarrow> env \<Rightarrow> string \<Rightarrow> cell list \<Rightarrow> cell list \<Rightarrow> string \<Rightarrow>
   (string \<times> dataframe) list \<times> trace \<Rightarrow> (string \<times> dataframe) list \<times> trace" where
  "go_step a w sample_name up_genes down_genes go_type st =
     (let go_results = fst st; tr = snd st;
          library = ''GO_'' @ go_type @ ''_2018'';
          up = run_enrichment a w tr up_genes [library] (''GO '' @ go_type @ '' upregulated'');
          st1 = (case fst up of
                   None \<Rightarrow> (go_results, snd up)
                 | Some r \<Rightarrow>
                     (AList.update (''up_'' @ lower go_type) (results r) go_results,
                      save_results a w (snd up) (fst up)
                        (sample_name @ ''_up_GO_'' @ go_type) ''go_results''));
          down = run_enrichment a w (snd st1) down_genes [library]
                   (''GO '' @ go_type @ '' downregulated'')
      in case fst down of
           None \<Rightarrow> (fst st1, snd down)
         | Some r \<Rightarrow>
             (AList.update (''down_'' @ lower go_type) (results r) (fst st1),
              save_results a w (snd down) (fst down)
                (sample_name @ ''_down_GO_'' @ go_type) ''go_results''))"

text \<open>One round of the loop of lines 298 to 313.\<close>

definition pathway_step ::
  "analyzer \<Rightarrow> env \<Rightarrow> string \<Rightarrow> cell list \<Rightarrow> cell list \<Rightarrow> string \<Rightarrow>
   (string \<times> dataframe) list \<times> trace \<Rightarrow> (string \<times> dataframe) list \<times> trace" where
  "pathway_step a w sample_name up_genes down_genes pathway_db st =
     (let pathway_results = fst st; tr = snd st;
          db_name = split_first (CHR ''_'') pathway_db;
          up = run_enrichment a w tr up_genes [pathway_db] (db_name @ '' upregulated'');
          st1 = (case fst up of
                   None \<Rightarrow> (pathway_results, snd up)
                 | Some r \<Rightarrow>
                     (AList.update (''up_'' @ lower db_name) (results r) pathway_results,
                      save_results a w (snd up) (fst up)
                        (sample_name @ ''_up_'' @ db_name) ''pathway_results''));
          down = run_enrichment a w (snd st1) down_genes [pathway_db]
                   (db_name @ '' downregulated'')
      in case fst down of
           None \<Rightarrow> (fst st1, snd down)
         | Some r \<Rightarrow>
             (AList.update (''down_'' @ lower db_name) (results r) (fst st1),
              save_results a w (snd down) (fst down)
                (sample_name @ ''_down_'' @ db_name) ''pathway_results''))"

text \<open>
  The querying phase, lines 273 to 313: the two loops over the literal lists of the
  source. It gives the GO results, the pathway results and the trace.
\<close>

definition go_types :: "string list" where
  "go_types = [''Biological_Process'', ''Molecular_Function'', ''Cellular_Component'']"

definition pathway_dbs :: "string list" where
  "pathway_dbs = [''WikiPathways_2018'', ''KEGG_2019'']"

definition query_phase ::
  "analyzer \<Rightarrow> env \<Rightarrow> trace \<Rightarrow> string \<Rightarrow> cell list \<Rightarrow> cell list \<Rightarrow>
   (string \<times> dataframe) list \<times> (string \<times> dataframe) list \<times> trace" where
  "query_phase a w tr sample_name up_genes down_genes =
     (let go = fold (go_step a w sample_name up_genes down_genes) go_types
                 ([], tr @ [Log INFO ''Running GO enrichment analysis...'']);
          pw = fold (pathway_step a w sample_name up_genes down_genes) pathway_dbs
                 ([], snd go @ [Log INFO ''Running pathway enrichment analysis...''])
      in (fst go, fst pw, snd pw))"

text \<open>
  A loop whose body may raise: the first exception ends it. The state is the outcome
  under construction and the trace.
\<close>

fun for_each ::
  "('x \<Rightarrow> outcome \<times> trace \<Rightarrow> (exn + outcome) \<times> trace) \<Rightarrow> 'x list \<Rightarrow> outcome \<times> trace \<Rightarrow>
   (exn + outcome) \<times> trace" where
  "for_each body [] st = (Inr (fst st), snd st)"
| "for_each body (x # xs) st =
     (case body x st of
        (Inl e, tr) \<Rightarrow> (Inl e, tr)
      | (Inr s, tr) \<Rightarrow> for_each body xs (s, tr))"

text \<open>
  Lines 323 to 343 and 350 to 370 share their shape: the two tables of a category, their
  significant rows, the two charts, the two counts. \<open>plot_category\<close> is that body, with
  the titles, file names and keys each loop gives it.
\<close>

definition plot_category ::
  "analyzer \<Rightarrow> env \<Rightarrow> dataframe \<Rightarrow> dataframe \<Rightarrow> flt \<Rightarrow> string \<Rightarrow> string \<Rightarrow> string \<Rightarrow> string \<Rightarrow>
   outcome \<times> trace \<Rightarrow> (exn + outcome) \<times> trace" where
  "plot_category a w up_data down_data p_threshold ttl filename up_field down_field st =
     (case filter_significant (Some up_data) p_threshold of
        Inl e \<Rightarrow> (Inl e, snd st)
      | Inr up_data_filtered \<Rightarrow>
         (case filter_significant (Some down_data) p_threshold of
            Inl e \<Rightarrow> (Inl e, snd st)
          | Inr down_data_filtered \<Rightarrow>
             (case create_comparison_plot a w (snd st) up_data down_data ttl filename 10 of
                (Some e, tr1) \<Rightarrow> (Inl e, tr1)
              | (None, tr1) \<Rightarrow>
                 (case create_comparison_plot a w tr1 up_data_filtered down_data_filtered
                         (ttl @ '' (Significant)'') (filename @ ''_significant'') 10 of
                    (Some e, tr2) \<Rightarrow> (Inl e, tr2)
                  | (None, tr2) \<Rightarrow>
                      (Inr (AList.update down_field (VInt (length (rows down_data_filtered)))
                             (AList.update up_field (VInt (length (rows up_data_filtered)))
                                (fst st))),
                       tr2)))))"

definition go_plot_step ::
  "analyzer \<Rightarrow> env \<Rightarrow> string \<Rightarrow> (string \<times> dataframe) list \<Rightarrow> flt \<Rightarrow> string \<Rightarrow>
   outcome \<times> trace \<Rightarrow> (exn + outcome) \<times> trace" where
  "go_plot_step a w sample_name go_results p_threshold go_type st =
     plot_category a w
       (get_or_empty go_results (''up_'' @ go_type))
       (get_or_empty go_results (''down_'' @ go_type))
       p_threshold
       (sample_name @ '' - GO '' @ title (replace_char (CHR ''_'') (CHR '' '') go_type))
       (sample_name @ ''_GO_'' @ go_type)
       (''go_'' @ go_type @ ''_up_significant'')
       (''go_'' @ go_type @ ''_down_significant'')
       st"

definition pathway_plot_step ::
  "analyzer \<Rightarrow> env \<Rightarrow> string \<Rightarrow> (string \<times> dataframe) list \<Rightarrow> flt \<Rightarrow> string \<Rightarrow>
   outcome \<times> trace \<Rightarrow> (exn + outcome) \<times> trace" where
  "pathway_plot_step a w sample_name pathway_results p_threshold db st =
     plot_category a w
       (get_or_empty pathway_results (''up_'' @ db))
       (get_or_empty pathway_results (''down_'' @ db))
       p_threshold
       (sample_name @ '' - '' @ upper db @ '' Pathways'')
       (sample_name @ ''_'' @ db @ ''_pathways'')
       (db @ ''_up_significant'')
       (db @ ''_down_significant'')
       st"

text \<open>The plotting phase, lines 315 to 370.\<close>

definition plot_phase ::
  "analyzer \<Rightarrow> env \<Rightarrow> string \<Rightarrow> (string \<times> dataframe) list \<Rightarrow> (string \<times> dataframe) list \<Rightarrow> flt \<Rightarrow>
   outcome \<times> trace \<Rightarrow> (exn + outcome) \<times> trace" where
  "plot_phase a w sample_name go_results pathway_results p_threshold st =
     (case for_each (go_plot_step a w sample_name go_results p_threshold)
             [''biological_process'', ''molecular_function'', ''cellular_component'']
             (fst st, snd st @ [Log INFO ''Creating comparison plots...'']) of
        (Inl e, tr) \<Rightarrow> (Inl e, tr)
      | (Inr s, tr) \<Rightarrow>
          for_each (pathway_plot_step a w sample_name pathway_results p_threshold)
            [''wikipathways'', ''kegg''] (s, tr))"

definition analyze_sample ::
  "analyzer \<Rightarrow> env \<Rightarrow> trace \<Rightarrow> string \<Rightarrow> string \<Rightarrow> string \<Rightarrow> string \<Rightarrow> flt \<Rightarrow>
   (exn + outcome) \<times> trace" where
  "analyze_sample a w tr xlsx_path sample_name gene_col regulation_col p_threshold =
     (let tr0 = tr @ [Log INFO (''Starting analysis for sample: '' @ sample_name)];
          sample_dir = path_join (output_dir a) sample_name
      in case mkdir w tr0 sample_dir of
           Some e \<Rightarrow> (Inl e, tr0 @ [Mkdir sample_dir])
         | None \<Rightarrow>
            (case load_degs w (tr0 @ [Mkdir sample_dir]) xlsx_path gene_col regulation_col of
               (Inl e, tr1) \<Rightarrow>
                 (Inr [(''status'', VStr ''failed''), (''error'', VStr (str_exn e))],
                  tr1 @ [Log ERROR (''Failed to load DEGs for '' @ sample_name @ '': '' @
                           str_exn e)])
             | (Inr genes, tr1) \<Rightarrow>
                 (let up_genes = fst genes; down_genes = snd genes;
                      results_summary =
                        [(''sample_name'', VStr sample_name),
                         (''up_genes_count'', VInt (length up_genes)),
                         (''down_genes_count'', VInt (length down_genes)),
                         (''status'', VStr ''success'')];
                      q = query_phase a w tr1 sample_name up_genes down_genes
                  in case plot_phase a w sample_name (fst q) (fst (snd q)) p_threshold
                            (results_summary, snd (snd q)) of
                       (Inl e, tr2) \<Rightarrow> (Inl e, tr2)
                     | (Inr s, tr2) \<Rightarrow>
                         (Inr s, tr2 @
                            [Log INFO (''Analysis completed for sample: '' @ sample_name)]))))"

subsection \<open>Batch coordinator\<close>








text \<open>The outcome the coordinators record for a file whose analysis raised.\<close>

definition failed_outcome :: "string \<Rightarrow> exn \<Rightarrow> outcome" where
  "failed_outcome sample_name e =
     [(''sample_name'', VStr sample_name), (''status'', VStr ''failed''),
      (''error'', VStr (str_exn e))]"





section \<open>Observing a run\<close>

text \<open>The calls of the provider and the entries into the invoker that a trace holds.\<close>

fun provider_calls :: "trace \<Rightarrow> (cell list \<times> string list \<times> string) list" where
  "provider_calls [] = []"
| "provider_calls (Enrichr g s org # tr) = (g, s, org) # provider_calls tr"
| "provider_calls (_ # tr) = provider_calls tr"

fun invocations :: "trace \<Rightarrow> (cell list \<times> string list \<times> string) list" where
  "invocations [] = []"
| "invocations (Invoked g s n # tr) = (g, s, n) # invocations tr"
| "invocations (_ # tr) = invocations tr"

text \<open>The adjusted p-value of a row of a result table, and whether a cell is a number.\<close>

definition padj :: "row \<Rightarrow> flt" where
  "padj r = (case r ''Adjusted P-value'' of Num p \<Rightarrow> p | Str s \<Rightarrow> NaN)"

definition is_num :: "cell \<Rightarrow> bool" where
  "is_num c = (case c of Num x \<Rightarrow> True | Str s \<Rightarrow> False)"


text \<open>
  The queries of one sample as the loops of \<open>analyze_sample\<close> order them: for each of
  the five libraries, the up-regulated genes and then the down-regulated genes.
  \<open>sent_to_provider\<close> keeps those that reach the provider: the ones with genes.
\<close>

definition planned_queries :: "cell list \<Rightarrow> cell list \<Rightarrow> (cell list \<times> string list \<times> string) list" where
  "planned_queries up_genes down_genes =
     concat (map (\<lambda>(library, label).
                    [(up_genes, [library], label @ '' upregulated''),
                     (down_genes, [library], label @ '' downregulated'')])
       [(''GO_Biological_Process_2018'', ''GO Biological_Process''),
        (''GO_Molecular_Function_2018'', ''GO Molecular_Function''),
        (''GO_Cellular_Component_2018'', ''GO Cellular_Component''),
        (''WikiPathways_2018'', ''WikiPathways''),
        (''KEGG_2019'', ''KEGG'')])"

definition sent_to_provider ::
  "string \<Rightarrow> (cell list \<times> string list \<times> string) list \<Rightarrow> (cell list \<times> string list \<times> string) list" where
  "sent_to_provider org qs = map (\<lambda>(g, libs, n). (g, libs, org)) (filter (\<lambda>(g, libs, n). g \<noteq> []) qs)"

text \<open>The library identifiers of the queries of a trace.\<close>

definition query_libraries :: "trace \<Rightarrow> string list list" where
  "query_libraries tr = map (\<lambda>q. fst (snd q)) (invocations tr)"

definition provider_libraries :: "trace \<Rightarrow> string list list" where
  "provider_libraries tr = map (\<lambda>q. fst (snd q)) (provider_calls tr)"

text \<open>
  The status an outcome records. A file \<open>fails to load\<close> when \<open>load_degs\<close>
  raises for it whatever has happened before: it cannot be read, or it is read and
  lacks a column the loader needs. A sample \<open>succeeds\<close> when its analysis returns
  an outcome with the status \<open>success\<close> whatever has happened before.
  \<open>expected_status\<close> is the status a batch should then record for a file, and
  \<open>flat_name\<close> the sample name \<open>process_directory_structure\<close> gives a relative
  path.
\<close>

definition status_of :: "outcome \<Rightarrow> val option" where
  "status_of r = map_of r ''status''"





text \<open>
  A result table the filter and the visualizer accept: it is empty, or its
  \<open>Adjusted P-value\<close> column holds numbers. A provider is good when every table it
  returns is such a table, and the plots are quiet when the plotting library never
  raises.
\<close>

definition wf_result :: "dataframe \<Rightarrow> bool" where
  "wf_result df =
     (df_empty df \<or>
      (''Adjusted P-value'' \<in> set (columns df) \<and>
       list_all (\<lambda>r. is_num (r ''Adjusted P-value'')) (rows df)))"




section \<open>Example inputs\<close>

definition mk_row :: "(string \<times> cell) list \<Rightarrow> row" where
  "mk_row kvs = (\<lambda>c. case map_of kvs c of None \<Rightarrow> Num NaN | Some v \<Rightarrow> v)"

text \<open>A result table of the provider with two terms.\<close>

definition ex_terms :: dataframe where
  "ex_terms =
     \<lparr>columns = [''Term'', ''Adjusted P-value''],
      rows = [mk_row [(''Term'', Str ''apoptosis''), (''Adjusted P-value'', Num (Fin (1 / 100)))],
              mk_row [(''Term'', Str ''cell cycle''), (''Adjusted P-value'', Num (Fin (1 / 10)))]]\<rparr>"

text \<open>A table with a regulation column, one without, and one that lists a gene twice.\<close>

definition ex_regulated :: dataframe where
  "ex_regulated =
     \<lparr>columns = [''gene'', ''regulation''],
      rows = [mk_row [(''gene'', Str ''g1''), (''regulation'', Str ''Upregulated'')],
              mk_row [(''gene'', Str ''g2''), (''regulation'', Str ''Downregulated'')],
              mk_row [(''gene'', Str ''g3''), (''regulation'', Str ''Upregulated'')]]\<rparr>"

definition ex_fold_changes :: dataframe where
  "ex_fold_changes =
     \<lparr>columns = [''gene'', ''log2FoldChange''],
      rows = [mk_row [(''gene'', Str ''g1''), (''log2FoldChange'', Num (Fin 2))],
              mk_row [(''gene'', Str ''g2''), (''log2FoldChange'', Num (Fin (- 1)))],
              mk_row [(''gene'', Str ''g3''), (''log2FoldChange'', Num (Fin (1 / 2)))],
              mk_row [(''gene'', Str ''g4''), (''log2FoldChange'', Num (Fin 0))]]\<rparr>"

definition ex_duplicated :: dataframe where
  "ex_duplicated =
     \<lparr>columns = [''gene'', ''regulation''],
      rows = [mk_row [(''gene'', Str ''A''), (''regulation'', Str ''Upregulated'')],
              mk_row [(''gene'', Str ''A''), (''regulation'', Str ''Downregulated'')]]\<rparr>"

text \<open>A base-10 logarithm that is exact at three p-values.\<close>

definition ex_log10 :: "flt \<Rightarrow> flt" where
  "ex_log10 x =
     (if x = Fin (1 / 10) then Fin (- 1)
      else if x = Fin (1 / 100) then Fin (- 2)
      else if x = Fin (1 / 1000) then Fin (- 3)
      else NaN)"

text \<open>
  A world in which \<open>in/bad.xlsx\<close> cannot be read, the KEGG library cannot be queried,
  and everything else works.
\<close>

definition ex_env :: env where
  "ex_env =
     \<lparr>mkdir = (\<lambda>h p. None),
      read_excel = (\<lambda>h p.
        if p = ''in/bad.xlsx'' then Inl (Exception ''File is not a zip file'')
        else if p = ''in/dup.xlsx'' then Inr ex_duplicated
        else if p = ''in/fc.xlsx'' then Inr ex_fold_changes
        else Inr ex_regulated),
      enrichr = (\<lambda>h genes libs org.
        if libs = [''KEGG_2019''] then Inl (Exception ''Error sending gene list'')
        else Inr \<lparr>results = ex_terms\<rparr>),
      to_excel = (\<lambda>h df p. None),
      plt_figure = (\<lambda>h n. None),
      bar_plot = (\<lambda>h df t p. None),
      np_log10 = ex_log10,
      glob = (\<lambda>h d p. [''in/bad.xlsx'', ''in/a.xlsx'', ''in/b.xlsx'']),
      rglob = (\<lambda>h d p. [''bad.xlsx'', ''condA/a.xlsx'', ''condB/b.xlsx''])\<rparr>"




definition ex_analyzer :: analyzer where
  "ex_analyzer = \<lparr>organism = ''human'', output_dir = ''out'', libraries = get_libraries ''human''\<rparr>"

section \<open>Basic facts\<close>

lemma bindE_Inr [simp]: "bindE (Inr x) f = f x"
  by (simp add: bindE_def)

lemma bindE_Inl [simp]: "bindE (Inl e) f = Inl e"
  by (simp add: bindE_def)


lemma provider_calls_append [simp]:
  "provider_calls (xs @ ys) = provider_calls xs @ provider_calls ys"
  by (induction xs rule: provider_calls.induct) simp_all

lemma invocations_append [simp]:
  "invocations (xs @ ys) = invocations xs @ invocations ys"
  by (induction xs rule: invocations.induct) simp_all

lemma mapE_all_Inr:
  assumes "\<And>x. x \<in> set xs \<Longrightarrow> f x = Inr (g x)"
  shows "mapE f xs = Inr (map g xs)"
  using assms by (induction xs) simp_all

lemma filter_zip_map: "map fst (filter snd (zip xs (map P xs))) = filter P xs"
  by (induction xs) simp_all

section \<open>Enrichment invoker: empty gene lists and provider faults\<close>

text \<open>
  C7. For an empty gene list \<open>run_enrichment\<close> returns None at once: it logs one
  warning, raises nothing and does not call the provider (the provider calls of the
  trace are those that were there before).
\<close>

theorem run_enrichment_empty_gene_list:
  "run_enrichment a w tr [] gene_set analysis_name =
     (None, tr @ [Invoked [] gene_set analysis_name,
                  Log WARNING (''Empty gene list for '' @ analysis_name)])
   \<and> provider_calls (snd (run_enrichment a w tr [] gene_set analysis_name)) = provider_calls tr"
  by (simp add: run_enrichment_def)

theorem run_enrichment_empty_gene_list_witness:
  "run_enrichment ex_analyzer ex_env [] [] [''KEGG_2019''] ''KEGG upregulated'' =
     (None, [Invoked [] [''KEGG_2019''] ''KEGG upregulated'',
             Log WARNING ''Empty gene list for KEGG upregulated''])
   \<and> provider_calls
        (snd (run_enrichment ex_analyzer ex_env [] [] [''KEGG_2019''] ''KEGG upregulated'')) = []"
  using run_enrichment_empty_gene_list
    [of ex_analyzer ex_env "[]" "[''KEGG_2019'']" "''KEGG upregulated''"]
  by simp

text \<open>
  C8. For a gene list that is not empty, when the call of the provider raises an
  exception, \<open>run_enrichment\<close> logs it as an error and returns None: the result is a
  value, not an exception, so the caller goes on with its next query.
\<close>

theorem run_enrichment_provider_fault:
  assumes "gene_list \<noteq> []"
    and "enrichr w (tr @ [Invoked gene_list gene_set analysis_name,
            Log INFO (''Running '' @ analysis_name @ '' with '' @
              str_nat (length gene_list) @ '' genes.'')])
          gene_list gene_set (organism a) = Inl e"
  shows "run_enrichment a w tr gene_list gene_set analysis_name =
     (None, tr @ [Invoked gene_list gene_set analysis_name,
                  Log INFO (''Running '' @ analysis_name @ '' with '' @
                    str_nat (length gene_list) @ '' genes.''),
                  Enrichr gene_list gene_set (organism a),
                  Log ERROR (''Error running '' @ analysis_name @ '': '' @ str_exn e)])"
  using assms by (simp add: run_enrichment_def Let_def)

theorem run_enrichment_provider_fault_witness:
  "run_enrichment ex_analyzer ex_env [] [Str ''g1''] [''KEGG_2019''] ''KEGG upregulated'' =
     (None, [Invoked [Str ''g1''] [''KEGG_2019''] ''KEGG upregulated'',
             Log INFO ''Running KEGG upregulated with 1 genes.'',
             Enrichr [Str ''g1''] [''KEGG_2019''] ''human'',
             Log ERROR ''Error running KEGG upregulated: Error sending gene list''])"
  using run_enrichment_provider_fault
    [of "[Str ''g1'']" ex_env "[]" "[''KEGG_2019'']" "''KEGG upregulated''" ex_analyzer
        "Exception ''Error sending gene list''"]
  by (simp add: ex_env_def ex_analyzer_def str_nat.simps)

section \<open>Significance filter\<close>

text \<open>
  C9. \<open>filter_significant\<close> returns an empty table for None and for an empty table, and
  raises nothing there. For a table whose \<open>Adjusted P-value\<close> column holds numbers it
  returns exactly the rows whose adjusted p-value is strictly below the threshold, in
  their order and under the same columns.
\<close>

theorem filter_significant_rows:
  "filter_significant None t = Inr empty_df
   \<and> (df_empty df \<longrightarrow> filter_significant (Some df) t = Inr empty_df)
   \<and> (''Adjusted P-value'' \<in> set (columns df) \<and>
        (\<forall>r \<in> set (rows df). is_num (r ''Adjusted P-value'')) \<longrightarrow>
        (\<exists>out. filter_significant (Some df) t = Inr out \<and>
           rows out = filter (\<lambda>r. flt_less (padj r) t) (rows df) \<and>
           (\<not> df_empty df \<longrightarrow> columns out = columns df)))"
proof (intro conjI impI)
  show "filter_significant None t = Inr empty_df"
    by (simp add: filter_significant_def)
  show "filter_significant (Some df) t = Inr empty_df" if "df_empty df"
    using that by (simp add: filter_significant_def)
  assume h: "''Adjusted P-value'' \<in> set (columns df) \<and>
        (\<forall>r \<in> set (rows df). is_num (r ''Adjusted P-value''))"
  have m: "mapE (cell_lt t) (map (\<lambda>r. r ''Adjusted P-value'') (rows df)) =
           Inr (map (\<lambda>c. flt_less (case c of Num p \<Rightarrow> p | Str s \<Rightarrow> NaN) t)
                  (map (\<lambda>r. r ''Adjusted P-value'') (rows df)))"
    using h by (intro mapE_all_Inr) (auto simp: is_num_def split: cell.splits)
  show "\<exists>out. filter_significant (Some df) t = Inr out \<and>
           rows out = filter (\<lambda>r. flt_less (padj r) t) (rows df) \<and>
           (\<not> df_empty df \<longrightarrow> columns out = columns df)"
  proof (cases "df_empty df")
    case True
    then have "rows df = [] \<or> columns df = []"
      by (auto simp: df_empty_def)
    with h have "rows df = []"
      by auto
    with True show ?thesis
      by (simp add: filter_significant_def empty_df_def)
  next
    case False
    have "map fst (filter snd (zip (rows df) (map (\<lambda>r. flt_less (padj r) t) (rows df)))) =
          filter (\<lambda>r. flt_less (padj r) t) (rows df)"
      by (rule filter_zip_map)
    with False h m show ?thesis
      by (simp add: filter_significant_def get_col_def df_mask_def o_def padj_def)
  qed
qed

theorem filter_significant_rows_witness:
  "filter_significant None (Fin (5 / 100)) = Inr empty_df
   \<and> filter_significant (Some empty_df) (Fin (5 / 100)) = Inr empty_df
   \<and> (\<exists>out. filter_significant (Some ex_terms) (Fin (5 / 100)) = Inr out \<and>
         rows out = [mk_row [(''Term'', Str ''apoptosis''),
                             (''Adjusted P-value'', Num (Fin (1 / 100)))]] \<and>
         columns out = [''Term'', ''Adjusted P-value''])"
  using filter_significant_rows [of "Fin (5 / 100)" empty_df]
    filter_significant_rows [of "Fin (5 / 100)" ex_terms]
  by (simp add: ex_terms_def empty_df_def df_empty_def is_num_def padj_def mk_row_def)

section \<open>Dataset loader\<close>



lemma select_eq_rows:
  assumes "col \<in> set (columns df)"
  shows "select_eq df col s = Inr (df\<lparr>rows := filter (\<lambda>r. r col = Str s) (rows df)\<rparr>)"
  using assms by (simp add: select_eq_def get_col_def df_mask_def filter_zip_map o_def)

lemma split_degs_present:
  assumes "rc \<in> set (columns df)" and "gc \<in> set (columns df)"
  shows "split_degs df gc rc =
     Inr (map (\<lambda>r. r gc) (filter (\<lambda>r. r rc = Str ''Upregulated'') (rows df)),
          map (\<lambda>r. r gc) (filter (\<lambda>r. r rc = Str ''Downregulated'') (rows df)))"
  using assms by (simp add: split_degs_def select_eq_rows get_col_def)





text \<open>
  C4, as amended. For a table that was read, with the gene column and a regulation
  column that holds only Upregulated and Downregulated, the loader puts the gene of
  each row in exactly one of its two lists (up for the rows marked Upregulated, down
  for the rows marked Downregulated, in table order): the union of the two lists is the
  set of the genes of the table and together they have one entry per row. The two
  lists are disjoint when no gene is listed twice.
\<close>

theorem load_degs_partition:
  assumes "read_excel w tr file_path = Inr df"
    and "regulation_col \<in> set (columns df)" and "gene_col \<in> set (columns df)"
    and "\<forall>r \<in> set (rows df).
           r regulation_col = Str ''Upregulated'' \<or> r regulation_col = Str ''Downregulated''"
  shows "\<exists>up down. fst (load_degs w tr file_path gene_col regulation_col) = Inr (up, down) \<and>
      up = map (\<lambda>r. r gene_col) (filter (\<lambda>r. r regulation_col = Str ''Upregulated'') (rows df)) \<and>
      down = map (\<lambda>r. r gene_col)
               (filter (\<lambda>r. r regulation_col = Str ''Downregulated'') (rows df)) \<and>
      set up \<union> set down = (\<lambda>r. r gene_col) ` set (rows df) \<and>
      mset up + mset down = mset (map (\<lambda>r. r gene_col) (rows df)) \<and>
      (distinct (map (\<lambda>r. r gene_col) (rows df)) \<longrightarrow> set up \<inter> set down = {})"
proof -
  let ?g = "\<lambda>r. r gene_col"
  let ?U = "\<lambda>r. r regulation_col = Str ''Upregulated''"
  let ?D = "\<lambda>r. r regulation_col = Str ''Downregulated''"
  let ?up = "map ?g (filter ?U (rows df))"
  let ?down = "map ?g (filter ?D (rows df))"
  have l: "fst (load_degs w tr file_path gene_col regulation_col) = Inr (?up, ?down)"
    using assms(1) split_degs_present [OF assms(2,3)] by (simp add: load_degs_def Let_def)
  have DU: "filter ?D (rows df) = filter (\<lambda>r. \<not> ?U r) (rows df)"
    using assms(4) by (intro filter_cong) auto
  have u: "set ?up \<union> set ?down = ?g ` set (rows df)"
    using assms(4) by auto
  have m: "mset ?up + mset ?down = mset (map ?g (rows df))"
  proof -
    have "mset (rows df) =
          filter_mset ?U (mset (rows df)) + filter_mset (\<lambda>r. \<not> ?U r) (mset (rows df))"
      by (rule multiset_partition)
    then have "image_mset ?g (mset (rows df)) =
          image_mset ?g (filter_mset ?U (mset (rows df))) +
          image_mset ?g (filter_mset (\<lambda>r. \<not> ?U r) (mset (rows df)))"
      by (metis image_mset_union)
    then show ?thesis
      unfolding DU by simp
  qed
  have dj: "set ?up \<inter> set ?down = {}" if "distinct (map ?g (rows df))"
  proof -
    have inj: "inj_on ?g (set (rows df))"
      using that by (simp add: distinct_map)
    show ?thesis
    proof (rule ccontr)
      assume "set ?up \<inter> set ?down \<noteq> {}"
      then obtain r1 r2 where "r1 \<in> set (rows df)" "r2 \<in> set (rows df)" "?U r1" "?D r2"
        "?g r1 = ?g r2" by auto
      with inj have "r1 = r2" by (auto dest: inj_onD)
      with \<open>?U r1\<close> \<open>?D r2\<close> show False by simp
    qed
  qed
  show ?thesis using l u m dj by blast
qed

theorem load_degs_partition_witness:
  "fst (load_degs ex_env [] ''in/a.xlsx'' ''gene'' ''regulation'') =
     Inr ([Str ''g1'', Str ''g3''], [Str ''g2''])
   \<and> set [Str ''g1'', Str ''g3''] \<inter> set [Str ''g2''] = {}"
  using load_degs_partition [of ex_env "[]" "''in/a.xlsx''" ex_regulated "''regulation''" "''gene''"]
  by (simp add: ex_env_def ex_regulated_def mk_row_def)


text \<open>
  The two lists are not disjoint in general: a gene listed once as Upregulated and
  once as Downregulated is in both.
\<close>

theorem load_degs_shared_gene:
  "read_excel ex_env [] ''in/dup.xlsx'' = Inr ex_duplicated
   \<and> list_all (\<lambda>r. r ''regulation'' = Str ''Upregulated'' \<or> r ''regulation'' = Str ''Downregulated'')
       (rows ex_duplicated)
   \<and> fst (load_degs ex_env [] ''in/dup.xlsx'' ''gene'' ''regulation'') =
       Inr ([Str ''A''], [Str ''A''])
   \<and> set [Str ''A''] \<inter> set [Str ''A''] \<noteq> ({} :: cell set)"
  by (simp add: load_degs_def split_degs_def select_eq_def get_col_def df_mask_def
      ex_env_def ex_duplicated_def mk_row_def Let_def)


section \<open>Comparison visualizer\<close>

lemma mapE_map_Inr:
  assumes "\<And>x. x \<in> set xs \<Longrightarrow> f (h x) = Inr (g x)"
  shows "mapE f (map h xs) = Inr (map g xs)"
  using assms by (induction xs) simp_all

lemma map2_upd_map:
  "map2 (\<lambda>r. fun_upd r c) (map f xs) (map g xs) = map (\<lambda>r. (f r)(c := g r)) xs"
  by (induction xs) simp_all

lemma cell_log10_num:
  "is_num (r ''Adjusted P-value'') \<Longrightarrow>
   cell_log10 w (r ''Adjusted P-value'') = Inr (np_log10 w (padj r))"
  by (cases "r ''Adjusted P-value''") (simp_all add: padj_def is_num_def)

lemma set_rows_df_head: "set (rows (df_head df n)) \<subseteq> set (rows df)"
  by (auto simp: df_head_def dest: in_set_takeD)

lemma columns_df_head [simp]: "columns (df_head df n) = columns df"
  by (simp add: df_head_def)

lemma plot_data_rows:
  assumes "\<not> df_empty res" and "''Adjusted P-value'' \<in> set (columns res)"
    and "\<forall>r \<in> set (rows res). is_num (r ''Adjusted P-value'')"
  shows "up_plot_data w res n =
           Inr \<lparr>columns = (if ''direction'' \<in> set (columns res) then columns res else columns res @ [''direction'']) @
                   (if ''-log10(p-value)'' \<in> set (columns res) then [] else [''-log10(p-value)'']),
                rows = map (\<lambda>r. r(''direction'' := Str ''Upregulated'',
                               ''-log10(p-value)'' := Num (flt_neg (np_log10 w (padj r)))))
                         (rows (df_head res n))\<rparr>"
    and "down_plot_data w res n =
           Inr \<lparr>columns = (if ''direction'' \<in> set (columns res) then columns res else columns res @ [''direction'']) @
                   (if ''-log10(p-value)'' \<in> set (columns res) then [] else [''-log10(p-value)'']),
                rows = map (\<lambda>r. r(''direction'' := Str ''Downregulated'',
                               ''-log10(p-value)'' := Num (np_log10 w (padj r))))
                         (rows (df_head res n))\<rparr>"
proof -
  have num: "\<And>r. r \<in> set (rows (df_head res n)) \<Longrightarrow> is_num (r ''Adjusted P-value'')"
    using assms(3) set_rows_df_head by blast
  have m: "mapE (cell_log10 w) (map (\<lambda>r. r ''Adjusted P-value'') (rows (df_head res n))) =
           Inr (map (\<lambda>r. np_log10 w (padj r)) (rows (df_head res n)))" 
    using num by (intro mapE_map_Inr) (simp add: cell_log10_num)
  show "up_plot_data w res n = Inr \<lparr>columns = (if ''direction'' \<in> set (columns res) then columns res else columns res @ [''direction'']) @
                   (if ''-log10(p-value)'' \<in> set (columns res) then [] else [''-log10(p-value)'']),
                rows = map (\<lambda>r. r(''direction'' := Str ''Upregulated'',
                               ''-log10(p-value)'' := Num (flt_neg (np_log10 w (padj r)))))
                         (rows (df_head res n))\<rparr>"
    using assms(1,2) m
    by (simp add: up_plot_data_def Let_def get_col_def set_col_const_def set_col_def o_def
        map2_upd_map)
  show "down_plot_data w res n = Inr \<lparr>columns = (if ''direction'' \<in> set (columns res) then columns res else columns res @ [''direction'']) @
                   (if ''-log10(p-value)'' \<in> set (columns res) then [] else [''-log10(p-value)'']),
                rows = map (\<lambda>r. r(''direction'' := Str ''Downregulated'',
                               ''-log10(p-value)'' := Num (np_log10 w (padj r))))
                         (rows (df_head res n))\<rparr>"
    using assms(1,2) m
    by (simp add: down_plot_data_def Let_def get_col_def set_col_const_def set_col_def o_def
        map2_upd_map)
qed

lemma create_comparison_plot_draws:
  assumes "up_plot_data w up_results top_n = Inr u"
    and "down_plot_data w down_results top_n = Inr d"
    and "rows u \<noteq> []" and "columns u \<noteq> []"
    and "plt_figure w tr (length (rows (concat_df u d))) = None"
  shows "BarPlot (concat_df u d) ttl
           (path_join (path_join (output_dir a) ''plots'') (filename @ ''.png''))
         \<in> set (snd (create_comparison_plot a w tr up_results down_results ttl filename top_n))"
proof -
  have ne: "\<not> df_empty u"
    using assms(3,4) by (simp add: df_empty_def)
  have nc: "\<not> df_empty (concat_df u d)"
    using assms(3,4) by (simp add: df_empty_def concat_df_def)
  show ?thesis
  proof (cases "bar_plot w (tr @ [Figure (length (rows (concat_df u d)))]) (concat_df u d) ttl
                  (path_join (path_join (output_dir a) ''plots'') (filename @ ''.png''))")
    case None
    with assms(1,2,5) ne nc show ?thesis
      by (simp add: create_comparison_plot_def Let_def)
  next
    case (Some e)
    with assms(1,2,5) ne nc show ?thesis
      by (simp add: create_comparison_plot_def Let_def)
  qed
qed

text \<open>
  C6. For two result tables that are not empty and whose \<open>Adjusted P-value\<close> column
  holds numbers, the bars of the chart are those of the first \<open>top_n\<close> rows of each
  table; the magnitude of an up-regulated bar is the negated base-10 logarithm of the
  adjusted p-value of its row and the magnitude of a down-regulated bar is that
  logarithm itself, not negated. These two tables, one after the other, are what the
  chart is drawn from.
\<close>

theorem comparison_plot_magnitudes:
  assumes "\<not> df_empty up_results" and "''Adjusted P-value'' \<in> set (columns up_results)"
    and "\<forall>r \<in> set (rows up_results). is_num (r ''Adjusted P-value'')"
    and "\<not> df_empty down_results" and "''Adjusted P-value'' \<in> set (columns down_results)"
    and "\<forall>r \<in> set (rows down_results). is_num (r ''Adjusted P-value'')"
  shows "\<exists>u d. up_plot_data w up_results top_n = Inr u \<and>
           down_plot_data w down_results top_n = Inr d \<and>
           rows u = map (\<lambda>r. r(''direction'' := Str ''Upregulated'',
                               ''-log10(p-value)'' := Num (flt_neg (np_log10 w (padj r)))))
                      (rows (df_head up_results top_n)) \<and>
           rows d = map (\<lambda>r. r(''direction'' := Str ''Downregulated'',
                               ''-log10(p-value)'' := Num (np_log10 w (padj r))))
                      (rows (df_head down_results top_n)) \<and>
           ''-log10(p-value)'' \<in> set (columns u) \<and> ''-log10(p-value)'' \<in> set (columns d) \<and>
           (0 < top_n \<and> plt_figure w tr (length (rows (concat_df u d))) = None \<longrightarrow>
              BarPlot (concat_df u d) ttl
                (path_join (path_join (output_dir a) ''plots'') (filename @ ''.png''))
              \<in> set (snd (create_comparison_plot a w tr up_results down_results ttl filename
                           top_n)))"
proof -
  obtain u where u: "up_plot_data w up_results top_n = Inr u"
    and ru: "rows u = map (\<lambda>r. r(''direction'' := Str ''Upregulated'',
                               ''-log10(p-value)'' := Num (flt_neg (np_log10 w (padj r)))))
                      (rows (df_head up_results top_n))"
    and cu: "''-log10(p-value)'' \<in> set (columns u)"
    using plot_data_rows(1) [OF assms(1-3), of w top_n] by simp
  obtain d where d: "down_plot_data w down_results top_n = Inr d"
    and rd: "rows d = map (\<lambda>r. r(''direction'' := Str ''Downregulated'',
                               ''-log10(p-value)'' := Num (np_log10 w (padj r))))
                      (rows (df_head down_results top_n))"
    and cd: "''-log10(p-value)'' \<in> set (columns d)"
    using plot_data_rows(2) [OF assms(4-6), of w top_n] by simp
  have plot: "0 < top_n \<and> plt_figure w tr (length (rows (concat_df u d))) = None \<longrightarrow>
              BarPlot (concat_df u d) ttl
                (path_join (path_join (output_dir a) ''plots'') (filename @ ''.png''))
              \<in> set (snd (create_comparison_plot a w tr up_results down_results ttl filename
                           top_n))"
  proof (intro impI, elim conjE)
    assume "0 < top_n" and f: "plt_figure w tr (length (rows (concat_df u d))) = None"
    have "rows up_results \<noteq> []"
      using assms(1) by (simp add: df_empty_def)
    with \<open>0 < top_n\<close> have "rows (df_head up_results top_n) \<noteq> []"
      by (cases "rows up_results") (simp_all add: df_head_def take_Cons split: nat.splits)
    then have "rows u \<noteq> []"
      using ru by simp
    moreover have "columns u \<noteq> []"
      using cu by auto
    ultimately show "BarPlot (concat_df u d) ttl
                (path_join (path_join (output_dir a) ''plots'') (filename @ ''.png''))
              \<in> set (snd (create_comparison_plot a w tr up_results down_results ttl filename
                           top_n))"
      using create_comparison_plot_draws [OF u d _ _ f] by blast
  qed
  show ?thesis
    by (rule exI [of _ u], rule exI [of _ d]) (intro conjI u d ru rd cu cd plot)
qed

theorem comparison_plot_magnitudes_witness:
  "\<exists>u d. up_plot_data ex_env ex_terms 10 = Inr u \<and>
      down_plot_data ex_env ex_terms 10 = Inr d \<and>
      map (\<lambda>r. r ''-log10(p-value)'') (rows u) = [Num (Fin 2), Num (Fin 1)] \<and>
      map (\<lambda>r. r ''-log10(p-value)'') (rows d) = [Num (Fin (- 2)), Num (Fin (- 1))] \<and>
      BarPlot (concat_df u d) ''s - KEGG Pathways'' ''out/plots/s_kegg_pathways.png''
        \<in> set (snd (create_comparison_plot ex_analyzer ex_env [] ex_terms ex_terms
                     ''s - KEGG Pathways'' ''s_kegg_pathways'' 10))"
proof -
  have h1: "\<not> df_empty ex_terms" and h2: "''Adjusted P-value'' \<in> set (columns ex_terms)"
    and h3: "\<forall>r \<in> set (rows ex_terms). is_num (r ''Adjusted P-value'')"
    by (simp_all add: ex_terms_def df_empty_def is_num_def mk_row_def)
  from comparison_plot_magnitudes [OF h1 h2 h3 h1 h2 h3, of ex_env 10 "[]"
      "''s - KEGG Pathways''" ex_analyzer "''s_kegg_pathways''"]
  obtain u d where u: "up_plot_data ex_env ex_terms 10 = Inr u"
    and d: "down_plot_data ex_env ex_terms 10 = Inr d"
    and ru: "rows u = map (\<lambda>r. r(''direction'' := Str ''Upregulated'',
                               ''-log10(p-value)'' := Num (flt_neg (np_log10 ex_env (padj r)))))
                      (rows (df_head ex_terms 10))"
    and rd: "rows d = map (\<lambda>r. r(''direction'' := Str ''Downregulated'',
                               ''-log10(p-value)'' := Num (np_log10 ex_env (padj r))))
                      (rows (df_head ex_terms 10))"
    and plot: "0 < (10::int) \<and> plt_figure ex_env [] (length (rows (concat_df u d))) = None \<longrightarrow>
              BarPlot (concat_df u d) ''s - KEGG Pathways''
                (path_join (path_join (output_dir ex_analyzer) ''plots'') (''s_kegg_pathways'' @ ''.png''))
              \<in> set (snd (create_comparison_plot ex_analyzer ex_env [] ex_terms ex_terms
                     ''s - KEGG Pathways'' ''s_kegg_pathways'' 10))"
    by blast
  have mu: "map (\<lambda>r. r ''-log10(p-value)'') (rows u) = [Num (Fin 2), Num (Fin 1)]"
    unfolding ru
    by (simp add: ex_terms_def df_head_def padj_def mk_row_def ex_env_def ex_log10_def)
  have md: "map (\<lambda>r. r ''-log10(p-value)'') (rows d) = [Num (Fin (- 2)), Num (Fin (- 1))]"
    unfolding rd
    by (simp add: ex_terms_def df_head_def padj_def mk_row_def ex_env_def ex_log10_def)
  have "BarPlot (concat_df u d) ''s - KEGG Pathways'' ''out/plots/s_kegg_pathways.png''
        \<in> set (snd (create_comparison_plot ex_analyzer ex_env [] ex_terms ex_terms
                     ''s - KEGG Pathways'' ''s_kegg_pathways'' 10))"
    using plot by (simp add: ex_env_def ex_analyzer_def path_join_def)
  then show ?thesis
    by (intro exI [of _ u] exI [of _ d] conjI u d mu md)
qed


section \<open>What a run asks of the provider\<close>

lemma run_enrichment_invocations [simp]:
  "invocations (snd (run_enrichment a w tr g s n)) = invocations tr @ [(g, s, n)]"
  by (simp add: run_enrichment_def Let_def split: sum.splits)

lemma run_enrichment_provider_calls [simp]:
  "provider_calls (snd (run_enrichment a w tr g s n)) =
     provider_calls tr @ sent_to_provider (organism a) [(g, s, n)]"
  by (simp add: run_enrichment_def Let_def sent_to_provider_def split: sum.splits)

lemma save_results_invocations [simp]:
  "invocations (save_results a w tr res filename subdir) = invocations tr"
  by (simp add: save_results_def Let_def split: option.splits)

lemma save_results_provider_calls [simp]:
  "provider_calls (save_results a w tr res filename subdir) = provider_calls tr"
  by (simp add: save_results_def Let_def split: option.splits)

lemma sent_to_provider_append [simp]:
  "sent_to_provider org (xs @ ys) = sent_to_provider org xs @ sent_to_provider org ys"
  by (simp add: sent_to_provider_def)

lemma half_step_invocations:
  "invocations (snd (case fst (run_enrichment a w tr g s n) of
        None \<Rightarrow> (d, snd (run_enrichment a w tr g s n))
      | Some r \<Rightarrow> (f r, save_results a w (snd (run_enrichment a w tr g s n)) x fn sub))) =
     invocations tr @ [(g, s, n)]"
  by (cases "fst (run_enrichment a w tr g s n)") simp_all

lemma half_step_provider_calls:
  "provider_calls (snd (case fst (run_enrichment a w tr g s n) of
        None \<Rightarrow> (d, snd (run_enrichment a w tr g s n))
      | Some r \<Rightarrow> (f r, save_results a w (snd (run_enrichment a w tr g s n)) x fn sub))) =
     provider_calls tr @ sent_to_provider (organism a) [(g, s, n)]"
  by (cases "fst (run_enrichment a w tr g s n)") simp_all

lemma go_step_invocations:
  "invocations (snd (go_step a w sample_name up_genes down_genes go_type st)) =
     invocations (snd st) @
       [(up_genes, [''GO_'' @ go_type @ ''_2018''], ''GO '' @ go_type @ '' upregulated''),
        (down_genes, [''GO_'' @ go_type @ ''_2018''], ''GO '' @ go_type @ '' downregulated'')]"
  unfolding go_step_def Let_def half_step_invocations by simp

lemma go_step_provider_calls:
  "provider_calls (snd (go_step a w sample_name up_genes down_genes go_type st)) =
     provider_calls (snd st) @ sent_to_provider (organism a)
       [(up_genes, [''GO_'' @ go_type @ ''_2018''], ''GO '' @ go_type @ '' upregulated''),
        (down_genes, [''GO_'' @ go_type @ ''_2018''], ''GO '' @ go_type @ '' downregulated'')]"
  unfolding go_step_def Let_def half_step_provider_calls
  by (simp flip: sent_to_provider_append)

lemma pathway_step_invocations:
  "invocations (snd (pathway_step a w sample_name up_genes down_genes db st)) =
     invocations (snd st) @
       [(up_genes, [db], split_first (CHR ''_'') db @ '' upregulated''),
        (down_genes, [db], split_first (CHR ''_'') db @ '' downregulated'')]"
  unfolding pathway_step_def Let_def half_step_invocations by simp

lemma pathway_step_provider_calls:
  "provider_calls (snd (pathway_step a w sample_name up_genes down_genes db st)) =
     provider_calls (snd st) @ sent_to_provider (organism a)
       [(up_genes, [db], split_first (CHR ''_'') db @ '' upregulated''),
        (down_genes, [db], split_first (CHR ''_'') db @ '' downregulated'')]"
  unfolding pathway_step_def Let_def half_step_provider_calls
  by (simp flip: sent_to_provider_append)

lemma query_phase_invocations:
  "invocations (snd (snd (query_phase a w tr sample_name up_genes down_genes))) =
     invocations tr @ planned_queries up_genes down_genes"
  by (simp add: query_phase_def Let_def go_types_def pathway_dbs_def go_step_invocations
      pathway_step_invocations planned_queries_def split_first_def)

lemma query_phase_provider_calls:
  "provider_calls (snd (snd (query_phase a w tr sample_name up_genes down_genes))) =
     provider_calls tr @ sent_to_provider (organism a) (planned_queries up_genes down_genes)"
  by (simp add: query_phase_def Let_def go_types_def pathway_dbs_def go_step_provider_calls
      pathway_step_provider_calls planned_queries_def split_first_def sent_to_provider_def)

lemma load_degs_invocations [simp]:
  "invocations (snd (load_degs w tr file_path gene_col regulation_col)) = invocations tr"
  by (simp add: load_degs_def Let_def split: sum.splits prod.splits)

lemma load_degs_provider_calls [simp]:
  "provider_calls (snd (load_degs w tr file_path gene_col regulation_col)) = provider_calls tr"
  by (simp add: load_degs_def Let_def split: sum.splits prod.splits)

lemma create_comparison_plot_invocations [simp]:
  "invocations (snd (create_comparison_plot a w tr up down ttl filename n)) = invocations tr"
  by (simp add: create_comparison_plot_def Let_def split: sum.splits option.splits)

lemma create_comparison_plot_provider_calls [simp]:
  "provider_calls (snd (create_comparison_plot a w tr up down ttl filename n)) =
     provider_calls tr"
  by (simp add: create_comparison_plot_def Let_def split: sum.splits option.splits)

lemma plot_category_preserves:
  assumes c: "\<And>tr u d t f n. obs (snd (create_comparison_plot a w tr u d t f n)) = obs tr"
  shows "obs (snd (plot_category a w up down p ttl filename uf df st)) = obs (snd st)"
proof (cases "filter_significant (Some up) p")
  case (Inl e)
  then show ?thesis
    by (simp add: plot_category_def)
next
  case up: (Inr fu)
  show ?thesis
  proof (cases "filter_significant (Some down) p")
    case (Inl e)
    with up show ?thesis
      by (simp add: plot_category_def)
  next
    case down: (Inr fd)
    obtain x1 tr1 where p1: "create_comparison_plot a w (snd st) up down ttl filename 10 = (x1, tr1)"
      by (cases "create_comparison_plot a w (snd st) up down ttl filename 10")
    have t1: "obs tr1 = obs (snd st)"
      using c [of "snd st" up down ttl filename 10] p1 by simp
    show ?thesis
    proof (cases x1)
      case (Some e)
      with up down p1 t1 show ?thesis
        by (simp add: plot_category_def)
    next
      case None
      obtain x2 tr2 where p2: "create_comparison_plot a w tr1 fu fd (ttl @ '' (Significant)'')
          (filename @ ''_significant'') 10 = (x2, tr2)"
        by (cases "create_comparison_plot a w tr1 fu fd (ttl @ '' (Significant)'')
          (filename @ ''_significant'') 10")
      have t2: "obs tr2 = obs tr1"
        using c [of tr1 fu fd "ttl @ '' (Significant)''" "filename @ ''_significant''" 10] p2
        by simp
      from up down p1 None p2 t1 t2 show ?thesis
        by (cases x2) (simp_all add: plot_category_def)
    qed
  qed
qed

lemma plot_category_invocations [simp]:
  "invocations (snd (plot_category a w up down p ttl filename uf df st)) = invocations (snd st)"
  by (rule plot_category_preserves) simp

lemma plot_category_provider_calls [simp]:
  "provider_calls (snd (plot_category a w up down p ttl filename uf df st)) =
     provider_calls (snd st)"
  by (rule plot_category_preserves) simp

lemma for_each_preserves:
  assumes "\<And>x st. obs (snd (body x st)) = obs (snd st)"
  shows "obs (snd (for_each body xs st)) = obs (snd st)"
proof (induction xs arbitrary: st)
  case Nil
  show ?case by simp
next
  case (Cons x xs)
  show ?case
  proof (cases "body x st")
    case (Pair r tr)
    have t: "obs tr = obs (snd st)"
      using assms [of x st] Pair by simp
    show ?thesis
    proof (cases r)
      case (Inl e)
      with Pair t show ?thesis by simp
    next
      case (Inr s)
      with Pair t Cons.IH [of "(s, tr)"] show ?thesis by simp
    qed
  qed
qed

lemma plot_phase_preserves:
  assumes c: "\<And>up down ttl fn uf df st'.
      obs (snd (plot_category a w up down p ttl fn uf df st')) = obs (snd st')"
    and l: "obs (snd st @ [Log INFO ''Creating comparison plots...'']) = obs (snd st)"
  shows "obs (snd (plot_phase a w sample_name go pw p st)) = obs (snd st)"
proof -
  let ?st0 = "(fst st, snd st @ [Log INFO ''Creating comparison plots...''])"
  let ?gos = "[''biological_process'', ''molecular_function'', ''cellular_component'']"
  have g: "obs (snd (for_each (go_plot_step a w sample_name go p) xs st')) = obs (snd st')"
    for xs st'
    by (rule for_each_preserves) (simp add: go_plot_step_def c)
  have q: "obs (snd (for_each (pathway_plot_step a w sample_name pw p) xs st')) = obs (snd st')"
    for xs st'
    by (rule for_each_preserves) (simp add: pathway_plot_step_def c)
  show ?thesis
  proof (cases "for_each (go_plot_step a w sample_name go p) ?gos ?st0")
    case (Pair r tr)
    have t: "obs tr = obs (snd st)"
      using g [of ?gos ?st0] Pair l by simp
    show ?thesis
    proof (cases r)
      case (Inl e)
      with Pair t show ?thesis
        by (simp add: plot_phase_def del: for_each.simps)
    next
      case (Inr s)
      with Pair t q [of "[''wikipathways'', ''kegg'']" "(s, tr)"] show ?thesis
        by (simp add: plot_phase_def del: for_each.simps)
    qed
  qed
qed

lemma plot_phase_invocations [simp]:
  "invocations (snd (plot_phase a w sample_name go pw p st)) = invocations (snd st)"
  by (rule plot_phase_preserves) simp_all

lemma plot_phase_provider_calls [simp]:
  "provider_calls (snd (plot_phase a w sample_name go pw p st)) = provider_calls (snd st)"
  by (rule plot_phase_preserves) simp_all


lemma analyze_sample_load_fails:
  assumes "mkdir w (tr @ [Log INFO (''Starting analysis for sample: '' @ sample_name)])
             (path_join (output_dir a) sample_name) = None"
    and "fst (load_degs w (tr @ [Log INFO (''Starting analysis for sample: '' @ sample_name),
                Mkdir (path_join (output_dir a) sample_name)])
              xlsx_path gene_col regulation_col) = Inl e"
  shows "fst (analyze_sample a w tr xlsx_path sample_name gene_col regulation_col p) =
           Inr [(''status'', VStr ''failed''), (''error'', VStr (str_exn e))]"
    and "invocations (snd (analyze_sample a w tr xlsx_path sample_name gene_col regulation_col p)) =
           invocations tr"
    and "provider_calls (snd (analyze_sample a w tr xlsx_path sample_name gene_col regulation_col p)) =
           provider_calls tr"
proof -
  let ?tr1 = "tr @ [Log INFO (''Starting analysis for sample: '' @ sample_name),
                Mkdir (path_join (output_dir a) sample_name)]"
  obtain tr2 where l: "load_degs w ?tr1 xlsx_path gene_col regulation_col = (Inl e, tr2)"
    using assms(2) by (cases "load_degs w ?tr1 xlsx_path gene_col regulation_col") simp
  have "invocations (snd (load_degs w ?tr1 xlsx_path gene_col regulation_col)) =
        invocations ?tr1"
    by (rule load_degs_invocations)
  then have i: "invocations tr2 = invocations tr"
    unfolding l by simp
  have "provider_calls (snd (load_degs w ?tr1 xlsx_path gene_col regulation_col)) =
        provider_calls ?tr1"
    by (rule load_degs_provider_calls)
  then have c: "provider_calls tr2 = provider_calls tr"
    unfolding l by simp
  show "fst (analyze_sample a w tr xlsx_path sample_name gene_col regulation_col p) =
           Inr [(''status'', VStr ''failed''), (''error'', VStr (str_exn e))]"
    using assms(1) l by (simp add: analyze_sample_def Let_def)
  show "invocations (snd (analyze_sample a w tr xlsx_path sample_name gene_col regulation_col p)) =
           invocations tr"
    using assms(1) l i by (simp add: analyze_sample_def Let_def)
  show "provider_calls (snd (analyze_sample a w tr xlsx_path sample_name gene_col regulation_col p)) =
           provider_calls tr"
    using assms(1) l c by (simp add: analyze_sample_def Let_def)
qed

lemma analyze_sample_loaded:
  assumes "mkdir w (tr @ [Log INFO (''Starting analysis for sample: '' @ sample_name)])
             (path_join (output_dir a) sample_name) = None"
    and "fst (load_degs w (tr @ [Log INFO (''Starting analysis for sample: '' @ sample_name),
                Mkdir (path_join (output_dir a) sample_name)])
              xlsx_path gene_col regulation_col) = Inr (up_genes, down_genes)"
  shows "invocations (snd (analyze_sample a w tr xlsx_path sample_name gene_col regulation_col p)) =
           invocations tr @ planned_queries up_genes down_genes"
    and "provider_calls (snd (analyze_sample a w tr xlsx_path sample_name gene_col regulation_col p)) =
           provider_calls tr @ sent_to_provider (organism a) (planned_queries up_genes down_genes)"
proof -
  let ?tr1 = "tr @ [Log INFO (''Starting analysis for sample: '' @ sample_name),
                Mkdir (path_join (output_dir a) sample_name)]"
  obtain tr2 where l: "load_degs w ?tr1 xlsx_path gene_col regulation_col =
      (Inr (up_genes, down_genes), tr2)"
    using assms(2) by (cases "load_degs w ?tr1 xlsx_path gene_col regulation_col") simp
  have "invocations (snd (load_degs w ?tr1 xlsx_path gene_col regulation_col)) =
        invocations ?tr1"
    by (rule load_degs_invocations)
  then have i: "invocations tr2 = invocations tr"
    unfolding l by simp
  have "provider_calls (snd (load_degs w ?tr1 xlsx_path gene_col regulation_col)) =
        provider_calls ?tr1"
    by (rule load_degs_provider_calls)
  then have c: "provider_calls tr2 = provider_calls tr"
    unfolding l by simp
  let ?q = "query_phase a w tr2 sample_name up_genes down_genes"
  let ?s0 = "[(''sample_name'', VStr sample_name),
              (''up_genes_count'', VInt (length up_genes)),
              (''down_genes_count'', VInt (length down_genes)),
              (''status'', VStr ''success'')]"
  let ?pp = "plot_phase a w sample_name (fst ?q) (fst (snd ?q)) p (?s0, snd (snd ?q))"
  have pi: "invocations (snd ?pp) = invocations tr @ planned_queries up_genes down_genes"
    using i by (simp add: query_phase_invocations)
  have pc: "provider_calls (snd ?pp) =
      provider_calls tr @ sent_to_provider (organism a) (planned_queries up_genes down_genes)"
    using c by (simp add: query_phase_provider_calls)
  have a: "snd (analyze_sample a w tr xlsx_path sample_name gene_col regulation_col p) =
      (case fst ?pp of Inl e \<Rightarrow> snd ?pp
       | Inr s \<Rightarrow> snd ?pp @ [Log INFO (''Analysis completed for sample: '' @ sample_name)])"
    using assms(1) l
    by (simp add: analyze_sample_def Let_def split: prod.splits sum.splits)
  show "invocations (snd (analyze_sample a w tr xlsx_path sample_name gene_col regulation_col p)) =
           invocations tr @ planned_queries up_genes down_genes"
    unfolding a using pi by (cases "fst ?pp") simp_all
  show "provider_calls (snd (analyze_sample a w tr xlsx_path sample_name gene_col regulation_col p)) =
           provider_calls tr @ sent_to_provider (organism a) (planned_queries up_genes down_genes)"
    unfolding a using pc by (cases "fst ?pp") simp_all
qed

text \<open>The example world at work.\<close>

lemma ex_load_a:
  "fst (load_degs ex_env h ''in/a.xlsx'' ''gene'' ''regulation'') =
     Inr ([Str ''g1'', Str ''g3''], [Str ''g2''])"
  by (simp add: load_degs_def split_degs_present ex_env_def ex_regulated_def mk_row_def Let_def)

lemma ex_load_bad:
  "fst (load_degs ex_env h ''in/bad.xlsx'' gc rc) = Inl (Exception ''File is not a zip file'')"
  by (simp add: load_degs_def ex_env_def)

lemma ex_mkdir: "mkdir ex_env h p = None"
  by (simp add: ex_env_def)

section \<open>Sample analyzer: the queries of a sample\<close>

text \<open>
  C2, as amended. For a sample whose dataset loads, \<open>analyze_sample\<close> enters the
  invoker exactly 10 times: five gene-set categories (three GO ontologies and two
  pathway databases) times two directions, one call per pair, in the order of
  \<open>planned_queries\<close>. The calls with a gene list that is not empty reach the provider,
  at most 10 of them.
\<close>

theorem analyze_sample_queries:
  assumes "mkdir w (tr @ [Log INFO (''Starting analysis for sample: '' @ sample_name)])
             (path_join (output_dir a) sample_name) = None"
    and "fst (load_degs w (tr @ [Log INFO (''Starting analysis for sample: '' @ sample_name),
                Mkdir (path_join (output_dir a) sample_name)])
              xlsx_path gene_col regulation_col) = Inr (up_genes, down_genes)"
  shows "invocations (snd (analyze_sample a w tr xlsx_path sample_name gene_col regulation_col p)) =
           invocations tr @ planned_queries up_genes down_genes
       \<and> length (planned_queries up_genes down_genes) = 10
       \<and> provider_calls
           (snd (analyze_sample a w tr xlsx_path sample_name gene_col regulation_col p)) =
           provider_calls tr @
             sent_to_provider (organism a) (planned_queries up_genes down_genes)
       \<and> length (sent_to_provider (organism a) (planned_queries up_genes down_genes)) \<le> 10"
proof -
  have n: "length (planned_queries up_genes down_genes) = 10"
    by (simp add: planned_queries_def)
  have "length (sent_to_provider (organism a) (planned_queries up_genes down_genes)) \<le>
        length (planned_queries up_genes down_genes)"
    unfolding sent_to_provider_def by (simp del: filter.simps)
  with n analyze_sample_loaded [OF assms] show ?thesis
    by simp
qed

theorem analyze_sample_queries_witness:
  "invocations (snd (analyze_sample ex_analyzer ex_env [] ''in/a.xlsx'' ''a'' ''gene''
       ''regulation'' (Fin (5 / 100)))) =
     planned_queries [Str ''g1'', Str ''g3''] [Str ''g2'']
   \<and> length (provider_calls (snd (analyze_sample ex_analyzer ex_env [] ''in/a.xlsx'' ''a''
       ''gene'' ''regulation'' (Fin (5 / 100))))) = 10"
  using analyze_sample_queries [of ex_env "[]" "''a''" ex_analyzer "''in/a.xlsx''" "''gene''"
      "''regulation''" "[Str ''g1'', Str ''g3'']" "[Str ''g2'']" "Fin (5 / 100)"]
  by (simp add: ex_mkdir ex_load_a sent_to_provider_def planned_queries_def)


text \<open>
  A sample that loads is not queried 12 times over six categories: the run on
  \<open>in/a.xlsx\<close> enters the invoker 10 times and names 5 libraries.
\<close>

theorem analyze_sample_ten_queries:
  "length (invocations (snd (analyze_sample ex_analyzer ex_env [] ''in/a.xlsx'' ''a'' ''gene''
       ''regulation'' (Fin (5 / 100))))) = 10
   \<and> length (remdups (map (\<lambda>q. fst (snd q))
        (invocations (snd (analyze_sample ex_analyzer ex_env [] ''in/a.xlsx'' ''a'' ''gene''
           ''regulation'' (Fin (5 / 100))))))) = 5"
proof -
  have "invocations (snd (analyze_sample ex_analyzer ex_env [] ''in/a.xlsx'' ''a'' ''gene''
       ''regulation'' (Fin (5 / 100)))) =
     invocations [] @ planned_queries [Str ''g1'', Str ''g3''] [Str ''g2'']"
    by (rule analyze_sample_loaded(1)) (simp_all add: ex_mkdir ex_load_a)
  then show ?thesis
    by (simp add: planned_queries_def)
qed


text \<open>
  C3. When loading fails, \<open>analyze_sample\<close> returns an outcome with the status
  \<open>failed\<close> and the error text and attempts no query, but the outcome has no
  \<open>sample_name\<close> field; the outcome the batch coordinators build for a failed file
  has one.
\<close>

theorem analyze_sample_load_failure_outcome:
  "fst (analyze_sample ex_analyzer ex_env [] ''in/bad.xlsx'' ''bad'' ''gene'' ''regulation''
          (Fin (5 / 100))) =
     Inr [(''status'', VStr ''failed''), (''error'', VStr ''File is not a zip file'')]
   \<and> map_of [(''status'', VStr ''failed''), (''error'', VStr ''File is not a zip file'')]
        ''sample_name'' = None
   \<and> invocations (snd (analyze_sample ex_analyzer ex_env [] ''in/bad.xlsx'' ''bad'' ''gene''
        ''regulation'' (Fin (5 / 100)))) = []
   \<and> map_of (failed_outcome ''bad'' (Exception ''File is not a zip file'')) ''sample_name'' =
        Some (VStr ''bad'')"
proof -
  have m: "mkdir ex_env ([] @ [Log INFO (''Starting analysis for sample: '' @ ''bad'')])
             (path_join (output_dir ex_analyzer) ''bad'') = None"
    by (rule ex_mkdir)
  have l: "fst (load_degs ex_env ([] @ [Log INFO (''Starting analysis for sample: '' @ ''bad''),
                Mkdir (path_join (output_dir ex_analyzer) ''bad'')])
              ''in/bad.xlsx'' ''gene'' ''regulation'') = Inl (Exception ''File is not a zip file'')"
    by (rule ex_load_bad)
  show ?thesis
    using analyze_sample_load_fails(1,2) [OF m l, where p = "Fin (5 / 100)"]
    by (simp add: failed_outcome_def)
qed


section \<open>The library catalog\<close>

lemma organism_libraries: "organism (a\<lparr>libraries := L\<rparr>) = organism a"
  by simp

lemma output_dir_libraries: "output_dir (a\<lparr>libraries := L\<rparr>) = output_dir a"
  by simp

lemma run_enrichment_libraries:
  "run_enrichment (a\<lparr>libraries := L\<rparr>) w tr g s n = run_enrichment a w tr g s n"
  unfolding run_enrichment_def organism_libraries ..

lemma save_results_libraries:
  "save_results (a\<lparr>libraries := L\<rparr>) w tr r f d = save_results a w tr r f d"
  unfolding save_results_def output_dir_libraries ..

lemma go_step_libraries:
  "go_step (a\<lparr>libraries := L\<rparr>) w sn up down t st = go_step a w sn up down t st"
  unfolding go_step_def run_enrichment_libraries save_results_libraries ..

lemma pathway_step_libraries:
  "pathway_step (a\<lparr>libraries := L\<rparr>) w sn up down t st = pathway_step a w sn up down t st"
  unfolding pathway_step_def run_enrichment_libraries save_results_libraries ..

lemma query_phase_libraries:
  "query_phase (a\<lparr>libraries := L\<rparr>) w tr sn up down = query_phase a w tr sn up down"
proof -
  have g: "go_step (a\<lparr>libraries := L\<rparr>) w sn up down = go_step a w sn up down"
    by (intro ext) (rule go_step_libraries)
  have p: "pathway_step (a\<lparr>libraries := L\<rparr>) w sn up down = pathway_step a w sn up down"
    by (intro ext) (rule pathway_step_libraries)
  show ?thesis
    unfolding query_phase_def g p ..
qed

lemma create_comparison_plot_libraries:
  "create_comparison_plot (a\<lparr>libraries := L\<rparr>) w tr u d t f n =
   create_comparison_plot a w tr u d t f n"
  unfolding create_comparison_plot_def output_dir_libraries ..

lemma plot_category_libraries:
  "plot_category (a\<lparr>libraries := L\<rparr>) w u d p t f uf df st = plot_category a w u d p t f uf df st"
  unfolding plot_category_def create_comparison_plot_libraries ..

lemma plot_phase_libraries:
  "plot_phase (a\<lparr>libraries := L\<rparr>) w sn go pw p st = plot_phase a w sn go pw p st"
proof -
  have g: "go_plot_step (a\<lparr>libraries := L\<rparr>) w sn go p = go_plot_step a w sn go p"
    unfolding go_plot_step_def plot_category_libraries ..
  have q: "pathway_plot_step (a\<lparr>libraries := L\<rparr>) w sn pw p = pathway_plot_step a w sn pw p"
    unfolding pathway_plot_step_def plot_category_libraries ..
  show ?thesis
    unfolding plot_phase_def g q ..
qed

lemma analyze_sample_libraries:
  "analyze_sample (a\<lparr>libraries := L\<rparr>) w tr x sn gc rc p = analyze_sample a w tr x sn gc rc p"
  unfolding analyze_sample_def query_phase_libraries plot_phase_libraries output_dir_libraries ..

text \<open>
  C10. Whatever the organism and the catalog of the analyzer, the queries of a sample
  name the same libraries: the three GO libraries of 2018, WikiPathways_2018 and
  KEGG_2019, each for the up-regulated and then the down-regulated genes. An analyzer
  built for another organism issues queries with the same library identifiers, and
  replacing the catalog \<open>libraries\<close> changes nothing in \<open>analyze_sample\<close>.
\<close>

theorem queries_use_fixed_libraries:
  "query_libraries (snd (snd (query_phase a w tr sample_name up_genes down_genes))) =
     query_libraries tr @
       [[''GO_Biological_Process_2018''], [''GO_Biological_Process_2018''],
        [''GO_Molecular_Function_2018''], [''GO_Molecular_Function_2018''],
        [''GO_Cellular_Component_2018''], [''GO_Cellular_Component_2018''],
        [''WikiPathways_2018''], [''WikiPathways_2018''],
        [''KEGG_2019''], [''KEGG_2019'']]
   \<and> set (provider_libraries (snd (snd (query_phase a w tr sample_name up_genes down_genes))))
       \<subseteq> set (provider_libraries tr) \<union>
         {[''GO_Biological_Process_2018''], [''GO_Molecular_Function_2018''],
          [''GO_Cellular_Component_2018''], [''WikiPathways_2018''], [''KEGG_2019'']}
   \<and> query_libraries
         (snd (snd (query_phase \<lparr>organism = org, output_dir = out, libraries = get_libraries org\<rparr>
                      w' tr sample_name up_genes down_genes))) =
       query_libraries (snd (snd (query_phase a w tr sample_name up_genes down_genes)))
   \<and> analyze_sample (a\<lparr>libraries := L\<rparr>) w tr xlsx_path sample_name gene_col regulation_col p =
       analyze_sample a w tr xlsx_path sample_name gene_col regulation_col p"
proof -
  have q: "query_libraries (snd (snd (query_phase b v tr sample_name up_genes down_genes))) =
     query_libraries tr @
       [[''GO_Biological_Process_2018''], [''GO_Biological_Process_2018''],
        [''GO_Molecular_Function_2018''], [''GO_Molecular_Function_2018''],
        [''GO_Cellular_Component_2018''], [''GO_Cellular_Component_2018''],
        [''WikiPathways_2018''], [''WikiPathways_2018''],
        [''KEGG_2019''], [''KEGG_2019'']]" for b v
    by (simp add: query_libraries_def query_phase_invocations planned_queries_def)
  have c: "set (provider_libraries (snd (snd (query_phase a w tr sample_name up_genes down_genes))))
       \<subseteq> set (provider_libraries tr) \<union>
         {[''GO_Biological_Process_2018''], [''GO_Molecular_Function_2018''],
          [''GO_Cellular_Component_2018''], [''WikiPathways_2018''], [''KEGG_2019'']}"
    by (auto simp: provider_libraries_def query_phase_provider_calls planned_queries_def
        sent_to_provider_def)
  show ?thesis
    using q c analyze_sample_libraries by simp
qed

theorem queries_use_fixed_libraries_witness:
  "query_libraries (snd (snd (query_phase ex_analyzer ex_env [] ''a'' [Str ''g1''] [])))
     = [[''GO_Biological_Process_2018''], [''GO_Biological_Process_2018''],
        [''GO_Molecular_Function_2018''], [''GO_Molecular_Function_2018''],
        [''GO_Cellular_Component_2018''], [''GO_Cellular_Component_2018''],
        [''WikiPathways_2018''], [''WikiPathways_2018''],
        [''KEGG_2019''], [''KEGG_2019'']]
   \<and> map_of (libraries ex_analyzer) ''go'' =
        Some [''GO_Biological_Process_2021'', ''GO_Molecular_Function_2021'',
              ''GO_Cellular_Component_2021'']
   \<and> query_libraries
         (snd (snd (query_phase
            \<lparr>organism = ''zebrafish'', output_dir = ''out'', libraries = get_libraries ''zebrafish''\<rparr>
            ex_env [] ''a'' [Str ''g1''] []))) =
       query_libraries (snd (snd (query_phase ex_analyzer ex_env [] ''a'' [Str ''g1''] [])))"
proof -
  have l: "lower ''human'' = ''human''"
    by code_simp
  have g: "map_of (libraries ex_analyzer) ''go'' =
        Some [''GO_Biological_Process_2021'', ''GO_Molecular_Function_2021'',
              ''GO_Cellular_Component_2021'']"
    by (simp add: ex_analyzer_def get_libraries_def l)
  show ?thesis
    using queries_use_fixed_libraries [of ex_analyzer ex_env "[]" "''a''" "[Str ''g1'']" "[]"
        "''zebrafish''" "''out''" ex_env] g
    by (simp add: query_libraries_def)
qed


section \<open>Sample analyzer: success once the genes are loaded\<close>

lemma wf_result_empty [simp]: "wf_result empty_df"
  by (simp add: wf_result_def df_empty_def empty_df_def)


















lemma status_of_failed_outcome [simp]:
  "status_of (failed_outcome name e) = Some (VStr ''failed'')"
  by (simp add: status_of_def failed_outcome_def)


























section \<open>Batch coordinator\<close>



end
